theory Spec2Isabelle
  imports Main
begin

section \<open>The world the tool runs in\<close>

text \<open>
  btrfs-rollback is a thin orchestration layer over external commands (\<^verbatim>\<open>mount\<close>,
  \<^verbatim>\<open>btrfs\<close>, \<^verbatim>\<open>mv\<close>, \<^verbatim>\<open>clear\<close>) and a few system calls. The embedding makes the
  world explicit: an abstract file-system state \<open>'fs\<close>, and a record of the operations the
  Go code calls on it. A Go \<^verbatim>\<open>error\<close> is modelled by its message; \<^verbatim>\<open>nil\<close> is \<open>None\<close>.
  A command is its argument vector, as \<^verbatim>\<open>exec.Command\<close> builds it.
\<close>

type_synonym err = string
type_synonym command = "string list"

record Config =
  SubvolMain :: string
  SubvolSnapshots :: string
  Mountpoint :: string
  Dev :: "string option"

record Snapshot =
  ID :: string
  Method :: string
  Date :: string
  DescriptionStr :: string

text \<open>
  \<open>exec\<close> runs a command to completion: its error (a non-zero exit or a failure to start),
  its combined output, and the file system afterwards. \<open>stat\<close> is \<^verbatim>\<open>os.Stat\<close> succeeding,
  \<open>readDir\<close> is \<^verbatim>\<open>os.ReadDir\<close> (name and \<^verbatim>\<open>IsDir\<close> of every entry), \<open>readFile\<close> is
  \<^verbatim>\<open>os.ReadFile\<close>. \<open>xmlUnmarshal\<close>, \<open>pathJoin\<close>, \<open>pathDir\<close> and \<open>sortSlice\<close> stand for the
  library functions \<^verbatim>\<open>xml.Unmarshal\<close> (into a \<open>Snapshot\<close>), \<^verbatim>\<open>filepath.Join\<close>, \<^verbatim>\<open>filepath.Dir\<close>
  and \<^verbatim>\<open>sort.Slice\<close> (the slice sorted with the given \<^verbatim>\<open>less\<close> on its elements); none of
  them is code of this repository.
\<close>

record 'fs sys =
  exec :: "command \<Rightarrow> 'fs \<Rightarrow> (err option \<times> string) \<times> 'fs"
  stat :: "'fs \<Rightarrow> string \<Rightarrow> bool"
  readDir :: "'fs \<Rightarrow> string \<Rightarrow> err + (string \<times> bool) list"
  readFile :: "'fs \<Rightarrow> string \<Rightarrow> err + string"
  xmlUnmarshal :: "string \<Rightarrow> err + Snapshot"
  pathJoin :: "string list \<Rightarrow> string"
  pathDir :: "string \<Rightarrow> string"
  sortSlice :: "(Snapshot \<Rightarrow> Snapshot \<Rightarrow> bool) \<Rightarrow> Snapshot list \<Rightarrow> Snapshot list"

text \<open>
  The state threaded through the program: the file system, what was written to standard
  output (one entry per print call, without the newline that ends it), and the commands
  that were run, oldest first.
\<close>

record 'fs state =
  fs :: "'fs"
  stdout :: "string list"
  executed :: "command list"

definition print :: "string \<Rightarrow> 'fs state \<Rightarrow> 'fs state" where
  "print s st = st\<lparr>stdout := stdout st @ [s]\<rparr>"

definition run :: "'fs sys \<Rightarrow> command \<Rightarrow> 'fs state \<Rightarrow> (err option \<times> string) \<times> 'fs state" where
  "run sy c st =
     (let (r, fs') = exec sy c (fs st) in (r, st\<lparr>fs := fs', executed := executed st @ [c]\<rparr>))"

text \<open>\<^verbatim>\<open>err != nil\<close>.\<close>

definition notNil :: "'a option \<Rightarrow> bool" where
  "notNil e = (case e of None \<Rightarrow> False | Some x \<Rightarrow> True)"

text \<open>\<^verbatim>\<open>%v\<close> of a string slice: the elements, separated by blanks, in brackets.\<close>

fun unwords :: "string list \<Rightarrow> string" where
  "unwords [] = []"
| "unwords [w] = w"
| "unwords (w # ws) = w @ '' '' @ unwords ws"

definition fmtArgs :: "string list \<Rightarrow> string" where
  "fmtArgs args = ''['' @ unwords args @ '']''"

section \<open>Mount Guard: \<^verbatim>\<open>MountSubvol\<close>\<close>

text \<open>
  The package variable \<^verbatim>\<open>dryRun\<close> is set once by \<^verbatim>\<open>SetDryRun\<close> before any other call;
  it is a parameter here. The result is the returned error and the state afterwards.
\<close>

definition MountSubvol :: "'fs sys \<Rightarrow> bool \<Rightarrow> Config \<Rightarrow> 'fs state \<Rightarrow> err option \<times> 'fs state" where
  "MountSubvol sy dryRun cfg st =
     (let ((err, output), st1) = run sy [''mount'', ''--grep'', Mountpoint cfg] st in
      if notNil err \<or> length output = 0 then
        (if notNil (Dev cfg) \<and> the (Dev cfg) \<noteq> '''' then
           (let cmd = [''mount'', ''-o'', ''subvolid=5'', the (Dev cfg), Mountpoint cfg];
                st2 = (if dryRun then print (''[dry-run] Would execute: '' @ fmtArgs cmd) st1
                       else st1);
                ((err2, out2), st3) = run sy cmd st2
            in (case err2 of
                  Some e \<Rightarrow> (Some (''failed to mount '' @ the (Dev cfg) @ '': '' @ e), st3)
                | None \<Rightarrow> (None, st3)))
         else (Some (''device not specified, unable to mount '' @ Mountpoint cfg), st1))
      else (None, print ''Mountpoint is already mounted.'' st1))"

section \<open>Rollback Engine: \<^verbatim>\<open>Rollback\<close>\<close>

definition Rollback :: "'fs sys \<Rightarrow> bool \<Rightarrow> Config \<Rightarrow> string \<Rightarrow> 'fs state \<Rightarrow> err option \<times> 'fs state" where
  "Rollback sy dryRun cfg snapshotID st =
     (let subvolMainPath = pathJoin sy [Mountpoint cfg, SubvolMain cfg];
          oldSubvolMainPath = subvolMainPath @ ''.old'';
          snapshotPath = pathJoin sy [Mountpoint cfg, SubvolSnapshots cfg, snapshotID, ''snapshot''];
          \<comment> \<open>Remove old subvolume if it exists\<close>
          (e1, st1) =
            (if stat sy (fs st) oldSubvolMainPath then
               (if dryRun then
                  (None, print (''[dry-run] Would delete old subvolume: '' @ oldSubvolMainPath) st)
                else
                  (let ((err, out), s) =
                         run sy [''btrfs'', ''subvolume'', ''delete'', oldSubvolMainPath]
                           (print (''Removing old subvolume: '' @ oldSubvolMainPath) st)
                   in (case err of
                         Some e \<Rightarrow> (Some (''failed to delete old subvolume: '' @ e), s)
                       | None \<Rightarrow> (None, s))))
             else (None, st))
      in if notNil e1 then (e1, st1) else
     (let \<comment> \<open>Move the current subvolume\<close>
          (e2, st2) =
            (if dryRun then
               (None, print (''[dry-run] Would move '' @ subvolMainPath @ '' to '' @ oldSubvolMainPath) st1)
             else
               (let ((err, out), s) = run sy [''mv'', subvolMainPath, oldSubvolMainPath] st1
                in (case err of
                      Some e \<Rightarrow> (Some (''failed to move '' @ subvolMainPath @ '' to ''
                                          @ oldSubvolMainPath @ '': '' @ e), s)
                    | None \<Rightarrow> (None, s))))
      in if notNil e2 then (e2, st2) else
     (let \<comment> \<open>Create the snapshot\<close>
          (e3, st3) =
            (if dryRun then
               (None, print (''[dry-run] Would create snapshot from '' @ snapshotPath @ '' to ''
                               @ subvolMainPath) st2)
             else
               (let ((err, out), s) =
                      run sy [''btrfs'', ''subvolume'', ''snapshot'', snapshotPath, subvolMainPath] st2
                in (case err of
                      Some e \<Rightarrow> (Some (''failed to create snapshot '' @ snapshotID @ '': '' @ e), s)
                    | None \<Rightarrow> (None, s))))
      in if notNil e3 then (e3, st3) else
     (let \<comment> \<open>Set default subvolume\<close>
          (e4, st4) =
            (if dryRun then
               (None, print (''[dry-run] Would set default subvolume to: '' @ subvolMainPath) st3)
             else
               (let ((err, out), s) =
                      run sy [''btrfs'', ''subvolume'', ''set-default'', subvolMainPath] st3
                in (case err of
                      Some e \<Rightarrow> (Some (''failed to set default subvolume: '' @ e), s)
                    | None \<Rightarrow> (None, s))))
      in if notNil e4 then (e4, st4)
         else (None, print (''Rollback completed using snapshot '' @ snapshotID) st4)))))"

subsection \<open>Names for the parts of \<open>MountSubvol\<close>\<close>

text \<open>
  The probe of the mount table, the mount command, what the code takes for "mounted" (the
  probe succeeded and printed something), and the state once the probe has run.
\<close>

definition probeCmd :: "Config \<Rightarrow> command" where
  "probeCmd cfg = [''mount'', ''--grep'', Mountpoint cfg]"

definition mountCmd :: "Config \<Rightarrow> command" where
  "mountCmd cfg = [''mount'', ''-o'', ''subvolid=5'', the (Dev cfg), Mountpoint cfg]"

definition reportsMounted :: "'fs sys \<Rightarrow> Config \<Rightarrow> 'fs \<Rightarrow> bool" where
  "reportsMounted sy cfg f =
     (case fst (exec sy (probeCmd cfg) f) of (err, output) \<Rightarrow> err = None \<and> output \<noteq> [])"

definition afterProbe :: "'fs sys \<Rightarrow> Config \<Rightarrow> 'fs state \<Rightarrow> 'fs state" where
  "afterProbe sy cfg st = snd (run sy (probeCmd cfg) st)"

subsection \<open>Names for the parts of \<open>Rollback\<close>\<close>

definition mainPath :: "'fs sys \<Rightarrow> Config \<Rightarrow> string" where
  "mainPath sy cfg = pathJoin sy [Mountpoint cfg, SubvolMain cfg]"

definition oldPath :: "'fs sys \<Rightarrow> Config \<Rightarrow> string" where
  "oldPath sy cfg = mainPath sy cfg @ ''.old''"

definition snapPath :: "'fs sys \<Rightarrow> Config \<Rightarrow> string \<Rightarrow> string" where
  "snapPath sy cfg snapshotID =
     pathJoin sy [Mountpoint cfg, SubvolSnapshots cfg, snapshotID, ''snapshot'']"

text \<open>The four steps, the command each one runs and the error each one returns on failure.\<close>

datatype step = DeleteOld | MoveCurrent | CreateSnapshot | SetDefault

fun stepCmd :: "'fs sys \<Rightarrow> Config \<Rightarrow> string \<Rightarrow> step \<Rightarrow> command" where
  "stepCmd sy cfg snapshotID DeleteOld = [''btrfs'', ''subvolume'', ''delete'', oldPath sy cfg]"
| "stepCmd sy cfg snapshotID MoveCurrent = [''mv'', mainPath sy cfg, oldPath sy cfg]"
| "stepCmd sy cfg snapshotID CreateSnapshot =
     [''btrfs'', ''subvolume'', ''snapshot'', snapPath sy cfg snapshotID, mainPath sy cfg]"
| "stepCmd sy cfg snapshotID SetDefault = [''btrfs'', ''subvolume'', ''set-default'', mainPath sy cfg]"

fun stepError :: "'fs sys \<Rightarrow> Config \<Rightarrow> string \<Rightarrow> step \<Rightarrow> err \<Rightarrow> err" where
  "stepError sy cfg snapshotID DeleteOld e = ''failed to delete old subvolume: '' @ e"
| "stepError sy cfg snapshotID MoveCurrent e =
     ''failed to move '' @ mainPath sy cfg @ '' to '' @ oldPath sy cfg @ '': '' @ e"
| "stepError sy cfg snapshotID CreateSnapshot e =
     ''failed to create snapshot '' @ snapshotID @ '': '' @ e"
| "stepError sy cfg snapshotID SetDefault e = ''failed to set default subvolume: '' @ e"

text \<open>
  The step an error message names: the messages differ at their eleventh character
  (\<^verbatim>\<open>failed to d\<close>, \<^verbatim>\<open>failed to m\<close>, \<^verbatim>\<open>failed to c\<close>, \<^verbatim>\<open>failed to s\<close>).
\<close>

definition stepOfError :: "err \<Rightarrow> step option" where
  "stepOfError m =
     (if take 11 m = ''failed to d'' then Some DeleteOld
      else if take 11 m = ''failed to m'' then Some MoveCurrent
      else if take 11 m = ''failed to c'' then Some CreateSnapshot
      else if take 11 m = ''failed to s'' then Some SetDefault
      else None)"

text \<open>
  The steps of one execution: the stale backup is deleted only if \<^verbatim>\<open>os.Stat\<close> finds it.
\<close>

definition plan :: "'fs sys \<Rightarrow> Config \<Rightarrow> 'fs \<Rightarrow> step list" where
  "plan sy cfg f =
     (if stat sy f (oldPath sy cfg) then [DeleteOld] else []) @
     [MoveCurrent, CreateSnapshot, SetDefault]"

text \<open>
  The state machine in the specification's words: the steps run strictly in order, and
  each one either completes or the whole operation aborts with that step and its error.
\<close>

fun runSteps :: "'fs sys \<Rightarrow> (step \<Rightarrow> command) \<Rightarrow> step list \<Rightarrow> 'fs state
                   \<Rightarrow> (step \<times> err) option \<times> 'fs state" where
  "runSteps sy cmd [] st = (None, st)"
| "runSteps sy cmd (s # ss) st =
     (case run sy (cmd s) st of
        ((Some e, out), st') \<Rightarrow> (Some (s, e), st')
      | ((None, out), st') \<Rightarrow> runSteps sy cmd ss st')"

text \<open>A line of standard output that announces a planned action.\<close>

definition announcement :: "string \<Rightarrow> bool" where
  "announcement l = (take 15 l = ''[dry-run] Would'')"

text \<open>The file system once step 1 has run (or was skipped).\<close>

definition afterStep1 :: "'fs sys \<Rightarrow> Config \<Rightarrow> string \<Rightarrow> 'fs \<Rightarrow> 'fs" where
  "afterStep1 sy cfg snapshotID f =
     (if stat sy f (oldPath sy cfg) then snd (exec sy (stepCmd sy cfg snapshotID DeleteOld) f)
      else f)"

text \<open>
  The block that every step of \<open>Rollback\<close> repeats: announce the action in a dry run,
  otherwise run the command and wrap its error.
\<close>

definition stepBlock :: "'fs sys \<Rightarrow> bool \<Rightarrow> string \<Rightarrow> command \<Rightarrow> (err \<Rightarrow> err) \<Rightarrow> 'fs state
                           \<Rightarrow> err option \<times> 'fs state" where
  "stepBlock sy dryRun line c errf st =
     (if dryRun then (None, print line st)
      else (let ((err, out), s) = run sy c st
            in (case err of Some e \<Rightarrow> (Some (errf e), s) | None \<Rightarrow> (None, s))))"

section \<open>Snapshot Catalog: \<^verbatim>\<open>listSubvolumes\<close>, \<^verbatim>\<open>ReadSnapshotInfo\<close>, \<^verbatim>\<open>GetSnapshots\<close>\<close>

text \<open>
  \<^verbatim>\<open>realIsBtrfsSubvolume\<close>: the probe \<^verbatim>\<open>btrfs subvolume show <path>\<close> exits without error.
\<close>

definition realIsBtrfsSubvolume :: "'fs sys \<Rightarrow> string \<Rightarrow> 'fs state \<Rightarrow> bool \<times> 'fs state" where
  "realIsBtrfsSubvolume sy path st =
     (let ((err, out), st') = run sy [''btrfs'', ''subvolume'', ''show'', path] st
      in (err = None, st'))"

text \<open>
  The loop of \<^verbatim>\<open>listSubvolumes\<close> over the directory entries (name and \<^verbatim>\<open>IsDir\<close>). The \<^verbatim>\<open>&&\<close>
  of the source is lazy: the probe runs for directories only.
\<close>

fun listLoop :: "'fs sys \<Rightarrow> string \<Rightarrow> (string \<times> bool) list \<Rightarrow> string list \<Rightarrow> 'fs state
                   \<Rightarrow> string list \<times> 'fs state" where
  "listLoop sy snapshotDir [] subvolumes st = (subvolumes, st)"
| "listLoop sy snapshotDir ((name, isDir) # entries) subvolumes st =
     (let fullPath = pathJoin sy [snapshotDir, name, ''snapshot''] in
      if isDir then
        (let (ok, st') = realIsBtrfsSubvolume sy fullPath st in
         if ok then listLoop sy snapshotDir entries (subvolumes @ [fullPath]) st'
         else listLoop sy snapshotDir entries subvolumes st')
      else listLoop sy snapshotDir entries subvolumes st)"

definition listSubvolumes :: "'fs sys \<Rightarrow> Config \<Rightarrow> 'fs state \<Rightarrow> (err + string list) \<times> 'fs state" where
  "listSubvolumes sy cfg st =
     (let snapshotDir = pathJoin sy [Mountpoint cfg, SubvolSnapshots cfg] in
      case readDir sy (fs st) snapshotDir of
        Inl e \<Rightarrow> (Inl e, st)
      | Inr entries \<Rightarrow>
          (let (subvolumes, st') = listLoop sy snapshotDir entries [] st
           in (Inr subvolumes, st')))"

definition ReadSnapshotInfo :: "'fs sys \<Rightarrow> 'fs \<Rightarrow> Config \<Rightarrow> string \<Rightarrow> err + Snapshot" where
  "ReadSnapshotInfo sy f cfg snapshotPath =
     (let infoXMLPath = pathJoin sy [pathDir sy snapshotPath, ''info.xml''] in
      case readFile sy f infoXMLPath of
        Inl e \<Rightarrow> Inl (''could not read XML file: '' @ e)
      | Inr xmlData \<Rightarrow>
          (case xmlUnmarshal sy xmlData of
             Inl e \<Rightarrow> Inl (''could not unmarshal XML: '' @ e)
           | Inr snapshot \<Rightarrow> Inr snapshot))"

text \<open>
  \<^verbatim>\<open>strconv.Atoi\<close> on a 64-bit platform, by its documented behaviour: an optional sign, then
  one or more decimal digits, and a value that fits \<^verbatim>\<open>int\<close>; any other string is an error.
\<close>

definition isDigit :: "char \<Rightarrow> bool" where
  "isDigit c = ((48::nat) \<le> of_char c \<and> of_char c \<le> (57::nat))"

definition digitsValue :: "string \<Rightarrow> int" where
  "digitsValue ds = foldl (\<lambda>n ch. n * 10 + (of_char ch - 48)) 0 ds"

definition Atoi :: "string \<Rightarrow> int option" where
  "Atoi s =
     (let neg = (s \<noteq> [] \<and> hd s = CHR ''-'');
          ds = (if s \<noteq> [] \<and> (hd s = CHR ''-'' \<or> hd s = CHR ''+'') then tl s else s)
      in if ds = [] \<or> \<not> list_all isDigit ds then None
         else (let v = (if neg then - digitsValue ds else digitsValue ds)
               in if - (2 ^ 63) \<le> v \<and> v \<le> 2 ^ 63 - 1 then Some v else None))"

text \<open>The \<^verbatim>\<open>less\<close> closure that \<open>GetSnapshots\<close> hands to \<^verbatim>\<open>sort.Slice\<close>, on the elements.\<close>

definition lessSnapshot :: "Snapshot \<Rightarrow> Snapshot \<Rightarrow> bool" where
  "lessSnapshot si sj =
     (case Atoi (ID si) of
        None \<Rightarrow> False
      | Some idI \<Rightarrow> (case Atoi (ID sj) of None \<Rightarrow> True | Some idJ \<Rightarrow> idI > idJ))"

text \<open>The loop of \<open>GetSnapshots\<close> over the subvolume paths: the first failure ends it.\<close>

fun readLoop :: "'fs sys \<Rightarrow> 'fs \<Rightarrow> Config \<Rightarrow> string list \<Rightarrow> Snapshot list \<Rightarrow> err + Snapshot list" where
  "readLoop sy f cfg [] snapshots = Inr snapshots"
| "readLoop sy f cfg (subvol # subvolPaths) snapshots =
     (case ReadSnapshotInfo sy f cfg subvol of
        Inl e \<Rightarrow> Inl (''could not read snapshot info for '' @ subvol @ '': '' @ e)
      | Inr snapshot \<Rightarrow> readLoop sy f cfg subvolPaths (snapshots @ [snapshot]))"

definition GetSnapshots :: "'fs sys \<Rightarrow> Config \<Rightarrow> 'fs state \<Rightarrow> (err + Snapshot list) \<times> 'fs state" where
  "GetSnapshots sy cfg st =
     (case listSubvolumes sy cfg st of
        (Inl e, st') \<Rightarrow> (Inl (''failed to list snapshot subvolumes: '' @ e), st')
      | (Inr subvolPaths, st') \<Rightarrow>
          (case readLoop sy (fs st') cfg subvolPaths [] of
             Inl e \<Rightarrow> (Inl e, st')
           | Inr snapshots \<Rightarrow> (Inr (sortSlice sy lessSnapshot snapshots), st')))"

subsection \<open>Names for the parts of the catalog\<close>

definition snapshotDir :: "'fs sys \<Rightarrow> Config \<Rightarrow> string" where
  "snapshotDir sy cfg = pathJoin sy [Mountpoint cfg, SubvolSnapshots cfg]"

definition candidatePath :: "'fs sys \<Rightarrow> Config \<Rightarrow> string \<Rightarrow> string" where
  "candidatePath sy cfg name = pathJoin sy [snapshotDir sy cfg, name, ''snapshot'']"

definition showCmd :: "string \<Rightarrow> command" where
  "showCmd path = [''btrfs'', ''subvolume'', ''show'', path]"

text \<open>The subvolume-introspection probe reports the path as a subvolume.\<close>

definition isSubvolume :: "'fs sys \<Rightarrow> 'fs \<Rightarrow> string \<Rightarrow> bool" where
  "isSubvolume sy f path = (fst (fst (exec sy (showCmd path) f)) = None)"

text \<open>An entry qualifies: it is a directory and its \<^verbatim>\<open>snapshot\<close> path is a subvolume.\<close>

definition qualifies :: "'fs sys \<Rightarrow> Config \<Rightarrow> 'fs \<Rightarrow> string \<times> bool \<Rightarrow> bool" where
  "qualifies sy cfg f entry = (snd entry \<and> isSubvolume sy f (candidatePath sy cfg (fst entry)))"

text \<open>The probe is read-only: it leaves the file system as it is.\<close>

definition probeReadOnly :: "'fs sys \<Rightarrow> bool" where
  "probeReadOnly sy = (\<forall>path f. snd (exec sy (showCmd path) f) = f)"

section \<open>Selection surface and confirmation: \<^verbatim>\<open>Update\<close>, \<^verbatim>\<open>RunUI\<close>, \<^verbatim>\<open>Confirm\<close>\<close>

text \<open>
  The list widget (\<^verbatim>\<open>bubbles/list\<close>) and the event loop (\<^verbatim>\<open>bubbletea\<close>) are libraries. Of the
  widget the code uses its cursor position, its \<^verbatim>\<open>Update\<close> and the three setters called on a
  resize; they are operations on an abstract widget state \<open>'l\<close>. Of a \<^verbatim>\<open>tea.Cmd\<close> only
  whether it is \<^verbatim>\<open>tea.Quit\<close> matters.
\<close>

datatype msg = WindowSizeMsg int int | KeyMsg string | OtherMsg

datatype cmd = NoCmd | Quit

record 'l listlib =
  listNew :: "Snapshot list \<Rightarrow> 'l"
  listIndex :: "'l \<Rightarrow> nat"
  listUpdate :: "msg \<Rightarrow> 'l \<Rightarrow> 'l \<times> cmd"
  listResize :: "int \<Rightarrow> int \<Rightarrow> Snapshot list \<Rightarrow> 'l \<Rightarrow> 'l"

record 'l model =
  width :: int
  height :: int
  quitting :: bool
  err :: "err option"
  listw :: "'l"
  selectedID :: string
  snapshots :: "Snapshot list"
  delegateWidth :: int

definition InitialModel :: "'l listlib \<Rightarrow> Snapshot list \<Rightarrow> 'l model" where
  "InitialModel lib snaps =
     \<lparr>width = 0, height = 0, quitting = False, err = None, listw = listNew lib snaps,
      selectedID = '''', snapshots = snaps, delegateWidth = 80\<rparr>"

text \<open>
  \<^verbatim>\<open>Update\<close>. \<open>None\<close> is the Go panic of \<^verbatim>\<open>m.snapshots[m.list.Index()]\<close> with the cursor out of
  range. A key that returns from neither case of the inner \<^verbatim>\<open>switch\<close> falls through to the
  widget's own \<^verbatim>\<open>Update\<close>.
\<close>

definition Update :: "'l listlib \<Rightarrow> 'l model \<Rightarrow> msg \<Rightarrow> ('l model \<times> cmd) option" where
  "Update lib m message =
     (let fallthrough = (let (l, c) = listUpdate lib message (listw m) in Some (m\<lparr>listw := l\<rparr>, c)) in
      case message of
        WindowSizeMsg w h \<Rightarrow>
          Some (m\<lparr>width := w, height := h,
                  listw := listResize lib w h (snapshots m) (listw m),
                  delegateWidth := w - 6\<rparr>, NoCmd)
      | KeyMsg k \<Rightarrow>
          (if k = ''enter'' then
             (if length (snapshots m) > 0 then
                (if listIndex lib (listw m) < length (snapshots m)
                 then Some (m\<lparr>selectedID := ID (snapshots m ! listIndex lib (listw m))\<rparr>, Quit)
                 else None)
              else fallthrough)
           else if k = ''ctrl+c'' \<or> k = ''esc'' \<or> k = ''q'' then
             Some (m\<lparr>quitting := True, err := Some ''''\<rparr>, Quit)
           else fallthrough)
      | OtherMsg \<Rightarrow> fallthrough)"

text \<open>
  \<^verbatim>\<open>p.Run()\<close>: the event loop hands the messages to \<^verbatim>\<open>Update\<close> until a \<^verbatim>\<open>tea.Quit\<close> comes back
  and returns the model then. With no message left the program keeps waiting.
\<close>

datatype 'l runResult = Finished "'l model" | Failed err | Waiting | Panicked

fun teaLoop :: "'l listlib \<Rightarrow> 'l model \<Rightarrow> msg list \<Rightarrow> 'l runResult" where
  "teaLoop lib m [] = Waiting"
| "teaLoop lib m (x # xs) =
     (case Update lib m x of
        None \<Rightarrow> Panicked
      | Some (m', Quit) \<Rightarrow> Finished m'
      | Some (m', NoCmd) \<Rightarrow> teaLoop lib m' xs)"

text \<open>
  What the terminal gives: an error of the event loop itself (no terminal, say), the
  messages it delivers, the error of \<^verbatim>\<open>term.MakeRaw\<close> and the byte that \<^verbatim>\<open>os.Stdin.Read\<close>
  stores (\<open>None\<close>: the read failed and the buffer keeps its zero byte).
\<close>

record tty =
  teaErr :: "err option"
  events :: "msg list"
  makeRaw :: "err option"
  stdinRead :: "char option"

text \<open>\<^verbatim>\<open>RunUI\<close>: a selected id, a returned error, \<^verbatim>\<open>os.Exit(1)\<close>, or no return at all.\<close>

datatype uiOutcome = Selected string | UiError err | UiExit nat | UiWaiting | UiPanicked

definition RunUI :: "'l listlib \<Rightarrow> tty \<Rightarrow> Snapshot list \<Rightarrow> uiOutcome" where
  "RunUI lib t snaps =
     (case (case teaErr t of Some e \<Rightarrow> Failed e
            | None \<Rightarrow> teaLoop lib (InitialModel lib snaps) (events t)) of
        Failed e \<Rightarrow> UiError e
      | Waiting \<Rightarrow> UiWaiting
      | Panicked \<Rightarrow> UiPanicked
      | Finished m \<Rightarrow> (if notNil (err m) then UiExit 1 else Selected (selectedID m)))"

text \<open>
  \<^verbatim>\<open>strings.ToLower\<close> of a one-byte string: an ASCII letter is lowered, another ASCII byte
  stays, and a byte from 128 on is no valid UTF-8 and comes out as the replacement
  character U+FFFD.
\<close>

definition ToLower1 :: "char \<Rightarrow> string" where
  "ToLower1 c =
     (if of_char c < (128::nat) then
        (if (65::nat) \<le> of_char c \<and> of_char c \<le> (90::nat)
         then [char_of (of_char c + (32::nat))] else [c])
      else [CHR 0xEF, CHR 0xBF, CHR 0xBD])"

definition Confirm :: "tty \<Rightarrow> string \<Rightarrow> 'fs state \<Rightarrow> bool \<times> 'fs state" where
  "Confirm t prompt st =
     (let st1 = print (prompt @ '' [y/N]: '') st in
      case makeRaw t of
        Some e \<Rightarrow> (False, print (CHR 0x0A # ''Unable to capture input.'') st1)
      | None \<Rightarrow>
          (let b = (case stdinRead t of Some c \<Rightarrow> c | None \<Rightarrow> CHR 0x00);
               st2 = print [b] st1
           in (if ToLower1 b = ''y'' then True else False, st2)))"

definition ClearScreen :: "'fs sys \<Rightarrow> 'fs state \<Rightarrow> 'fs state" where
  "ClearScreen sy st = snd (run sy [''clear''] st)"

section \<open>Configuration and \<^verbatim>\<open>main\<close>\<close>

definition DefaultConfig :: Config where
  "DefaultConfig = \<lparr>SubvolMain = ''@'', SubvolSnapshots = ''@snapshots'',
                     Mountpoint = ''/btrfs'', Dev = None\<rparr>"

text \<open>
  What the process is started with: the error of the command-line parser, the two flags,
  the library functions \<^verbatim>\<open>filepath.Abs\<close> and \<^verbatim>\<open>toml.DecodeFile\<close> (into a \<open>Config\<close>), the
  effective user id and the terminal.
\<close>

record invocation =
  rootCmdErr :: "err option"
  cfgPath :: string
  dryRunFlag :: bool
  pathAbs :: "string \<Rightarrow> err + string"
  tomlDecodeFile :: "string \<Rightarrow> err + Config"
  euid :: nat
  terminal :: tty

definition ParseConfig :: "invocation \<Rightarrow> string \<Rightarrow> Config" where
  "ParseConfig iv path =
     (case tomlDecodeFile iv path of Inl e \<Rightarrow> DefaultConfig | Inr config \<Rightarrow> config)"

text \<open>\<^verbatim>\<open>loadConfig\<close>: \<open>Inl\<close> is the message written before \<^verbatim>\<open>os.Exit(1)\<close>.\<close>

definition loadConfig :: "invocation \<Rightarrow> err + Config" where
  "loadConfig iv =
     (if cfgPath iv \<noteq> '''' then
        (case pathAbs iv (cfgPath iv) of
           Inl e \<Rightarrow> Inl (''Invalid config path: '' @ e)
         | Inr absPath \<Rightarrow> Inr (ParseConfig iv absPath))
      else Inr \<lparr>SubvolMain = '''', SubvolSnapshots = '''', Mountpoint = '''', Dev = None\<rparr>)"

text \<open>
  How the process ends: with an exit status, by a Go panic, or not at all (it waits for
  input that does not come). \<open>stderr\<close> holds what was written to standard error;
  \<^verbatim>\<open>log.Fatal\<close> writes the error there and exits with status 1.
\<close>

datatype ending = Exited nat | Crashed | StillWaiting

record 'fs outcome =
  ending :: ending
  final :: "'fs state"
  stderr :: "string list"

definition fatal :: "err \<Rightarrow> 'fs state \<Rightarrow> 'fs outcome" where
  "fatal e st = \<lparr>ending = Exited 1, final = st, stderr = [e]\<rparr>"

definition finish :: "ending \<Rightarrow> 'fs state \<Rightarrow> 'fs outcome" where
  "finish x st = \<lparr>ending = x, final = st, stderr = []\<rparr>"

definition main :: "'fs sys \<Rightarrow> 'l listlib \<Rightarrow> invocation \<Rightarrow> 'fs state \<Rightarrow> 'fs outcome" where
  "main sy lib iv st0 =
     (case rootCmdErr iv of
        Some e \<Rightarrow> fatal e st0
      | None \<Rightarrow>
     (case loadConfig iv of
        Inl e \<Rightarrow> fatal e st0
      | Inr cfg \<Rightarrow>
     (if euid iv \<noteq> 0 then
        finish (Exited 1) (print ''This program must be run with sudo or as root.'' st0)
      else
     (case MountSubvol sy (dryRunFlag iv) cfg st0 of
        (Some e, st1) \<Rightarrow> fatal e st1
      | (None, st1) \<Rightarrow>
     (case GetSnapshots sy cfg st1 of
        (Inl e, st2) \<Rightarrow> fatal e st2
      | (Inr snaps, st2) \<Rightarrow>
     (case RunUI lib (terminal iv) snaps of
        UiError e \<Rightarrow> fatal e st2
      | UiExit n \<Rightarrow> finish (Exited n) st2
      | UiWaiting \<Rightarrow> finish StillWaiting st2
      | UiPanicked \<Rightarrow> finish Crashed st2
      | Selected snapshotID \<Rightarrow>
          (let st3 = ClearScreen sy st2 in
           if \<not> dryRunFlag iv then
             (let (confirmed, st4) =
                    Confirm (terminal iv)
                      (''Are you sure you want to rollback to snapshot '' @ snapshotID @ ''?'') st3;
                  st5 = print '''' st4
              in if \<not> confirmed then finish (Exited 0) st5
                 else finish (Exited 0) (snd (Rollback sy (dryRunFlag iv) cfg snapshotID st5)))
           else finish (Exited 0) (snd (Rollback sy (dryRunFlag iv) cfg snapshotID st3)))))))))"

subsection \<open>Names for the parts of the selection and of \<open>main\<close>\<close>

text \<open>The keys that cancel the selection.\<close>

definition cancelKey :: "string \<Rightarrow> bool" where
  "cancelKey k = (k = ''ctrl+c'' \<or> k = ''esc'' \<or> k = ''q'')"

text \<open>
  The event loop takes the messages \<open>pre\<close> without quitting: the model afterwards, or \<open>None\<close>
  if one of them ends the program.
\<close>

fun feed :: "'l listlib \<Rightarrow> 'l model \<Rightarrow> msg list \<Rightarrow> 'l model option" where
  "feed lib m [] = Some m"
| "feed lib m (x # xs) =
     (case Update lib m x of
        Some (m', NoCmd) \<Rightarrow> feed lib m' xs
      | Some (m', Quit) \<Rightarrow> None
      | None \<Rightarrow> None)"

text \<open>The user answers the confirmation prompt with \<^verbatim>\<open>y\<close> or \<^verbatim>\<open>Y\<close>, read in raw mode.\<close>

definition affirmative :: "tty \<Rightarrow> bool" where
  "affirmative t =
     (makeRaw t = None \<and> (stdinRead t = Some (CHR ''y'') \<or> stdinRead t = Some (CHR ''Y'')))"

text \<open>The commands that change subvolumes: those of the four steps of \<open>Rollback\<close>.\<close>

definition isRollbackCmd :: "command \<Rightarrow> bool" where
  "isRollbackCmd c =
     (take 1 c = [''mv''] \<or>
      take 3 c = [''btrfs'', ''subvolume'', ''delete''] \<or>
      take 3 c = [''btrfs'', ''subvolume'', ''snapshot''] \<or>
      take 3 c = [''btrfs'', ''subvolume'', ''set-default''])"

section \<open>A small concrete world\<close>

text \<open>
  A toy file system on which the definitions can be run: whether the top-level volume is
  mounted, the subvolume paths that exist, the default subvolume, the directory listings
  and the files. Every command of \<open>bad\<close> fails with \<^verbatim>\<open>exit status 1\<close> and changes nothing;
  the others succeed and have their effect.
\<close>

record toyfs =
  mounted :: bool
  subvols :: "string list"
  defaultSubvol :: string
  dirs :: "(string \<times> (string \<times> bool) list) list"
  files :: "(string \<times> string) list"

definition toyExec :: "command list \<Rightarrow> command \<Rightarrow> toyfs \<Rightarrow> (err option \<times> string) \<times> toyfs" where
  "toyExec bad c t =
     (if c \<in> set bad then ((Some ''exit status 1'', ''''), t)
      else if take 2 c = [''mount'', ''--grep''] then
        ((None, if mounted t then ''/dev/sda2 on /btrfs type btrfs'' else ''''), t)
      else if take 2 c = [''mount'', ''-o''] then ((None, ''''), t\<lparr>mounted := True\<rparr>)
      else if take 3 c = [''btrfs'', ''subvolume'', ''show''] then
        (if last c \<in> set (subvols t) then ((None, last c), t)
         else ((Some ''exit status 1'', ''''), t))
      else if take 3 c = [''btrfs'', ''subvolume'', ''delete''] then
        ((None, ''''), t\<lparr>subvols := removeAll (last c) (subvols t)\<rparr>)
      else if take 1 c = [''mv''] then
        ((None, ''''), t\<lparr>subvols := map (\<lambda>p. if p = c ! 1 then c ! 2 else p) (subvols t)\<rparr>)
      else if take 3 c = [''btrfs'', ''subvolume'', ''snapshot''] then
        ((None, ''''), t\<lparr>subvols := subvols t @ [last c]\<rparr>)
      else if take 3 c = [''btrfs'', ''subvolume'', ''set-default''] then
        ((None, ''''), t\<lparr>defaultSubvol := last c\<rparr>)
      else ((None, ''''), t))"

fun toyJoin :: "string list \<Rightarrow> string" where
  "toyJoin [] = []"
| "toyJoin [p] = p"
| "toyJoin (p # ps) = p @ ''/'' @ toyJoin ps"

definition toyDir :: "string \<Rightarrow> string" where
  "toyDir p = rev (drop 1 (dropWhile (\<lambda>c. c \<noteq> CHR ''/'') (rev p)))"

text \<open>The toy decoder takes the whole file content for the snapshot number.\<close>

definition toyXml :: "string \<Rightarrow> err + Snapshot" where
  "toyXml s = (if s = '''' then Inl ''EOF''
               else Inr \<lparr>ID = s, Method = ''single'', Date = ''2025-01-01'', DescriptionStr = ''''\<rparr>)"

definition toySys :: "command list \<Rightarrow> toyfs sys" where
  "toySys bad =
     \<lparr>exec = toyExec bad,
      stat = (\<lambda>t p. p \<in> set (subvols t)),
      readDir = (\<lambda>t d. case map_of (dirs t) d of
                          None \<Rightarrow> Inl (''open '' @ d @ '': no such file or directory'')
                        | Some es \<Rightarrow> Inr es),
      readFile = (\<lambda>t f. case map_of (files t) f of
                           None \<Rightarrow> Inl (''open '' @ f @ '': no such file or directory'')
                         | Some s \<Rightarrow> Inr s),
      xmlUnmarshal = toyXml,
      pathJoin = toyJoin,
      pathDir = toyDir,
      sortSlice = (\<lambda>lt xs. xs)\<rparr>"

definition toyCfg :: Config where
  "toyCfg = \<lparr>SubvolMain = ''@'', SubvolSnapshots = ''@snapshots'', Mountpoint = ''/btrfs'',
             Dev = Some ''/dev/sda2''\<rparr>"

definition toyFs :: toyfs where
  "toyFs = \<lparr>mounted = False,
            subvols = [''/btrfs/@'', ''/btrfs/@.old'', ''/btrfs/@snapshots/7/snapshot'',
                       ''/btrfs/@snapshots/2/snapshot''],
            defaultSubvol = ''/btrfs/@'',
            dirs = [(''/btrfs/@snapshots'', [(''7'', True), (''notes.txt'', False), (''2'', True),
                                             (''lost'', True)])],
            files = [(''/btrfs/@snapshots/7/info.xml'', ''7''),
                     (''/btrfs/@snapshots/2/info.xml'', ''2'')]\<rparr>"

definition start :: "'fs \<Rightarrow> 'fs state" where
  "start f = \<lparr>fs = f, stdout = [], executed = []\<rparr>"


text \<open>A toy list widget: its state is the cursor, moved by the arrow keys.\<close>

definition toyList :: "nat listlib" where
  "toyList =
     \<lparr>listNew = (\<lambda>snaps. 0),
      listIndex = (\<lambda>i. i),
      listUpdate = (\<lambda>message i.
         (case message of
            KeyMsg k \<Rightarrow> (if k = ''down'' then i + 1 else if k = ''up'' then i - 1 else i)
          | WindowSizeMsg w h \<Rightarrow> i
          | OtherMsg \<Rightarrow> i, NoCmd)),
      listResize = (\<lambda>w h snaps i. i)\<rparr>"

text \<open>An invocation as root with the toy configuration: the messages and the key typed.\<close>

definition toyInvocation :: "bool \<Rightarrow> msg list \<Rightarrow> char \<Rightarrow> invocation" where
  "toyInvocation dry evs key =
     \<lparr>rootCmdErr = None, cfgPath = ''/etc/btrfs-rollback.toml'', dryRunFlag = dry,
      pathAbs = (\<lambda>p. Inr p), tomlDecodeFile = (\<lambda>p. Inr toyCfg), euid = 0,
      terminal = \<lparr>teaErr = None, events = evs, makeRaw = None, stdinRead = Some key\<rparr>\<rparr>"

section \<open>Properties of the Mount Guard\<close>

lemma notNil_simps [simp]: "notNil None = False" "notNil (Some x) = True"
  by (simp_all add: notNil_def)

lemma notNil_iff: "notNil e \<longleftrightarrow> e \<noteq> None"
  by (cases e) simp_all

lemma toy_simps:
  "exec (toySys bad) = toyExec bad"
  "stat (toySys bad) = (\<lambda>t p. p \<in> set (subvols t))"
  "xmlUnmarshal (toySys bad) = toyXml"
  "pathJoin (toySys bad) = toyJoin"
  "pathDir (toySys bad) = toyDir"
  "readDir (toySys bad) t d =
     (case map_of (dirs t) d of
        None \<Rightarrow> Inl (''open '' @ d @ '': no such file or directory'')
      | Some es \<Rightarrow> Inr es)"
  "readFile (toySys bad) t f =
     (case map_of (files t) f of
        None \<Rightarrow> Inl (''open '' @ f @ '': no such file or directory'')
      | Some s \<Rightarrow> Inr s)"
  by (simp_all add: toySys_def)

text \<open>
  What \<open>MountSubvol\<close> does when the probe does not report the mountpoint as mounted: the
  mount command runs whenever a non-empty device is configured, after the dry-run
  announcement if the flag is set.
\<close>

lemma MountSubvol_unmounted:
  assumes "\<not> reportsMounted sy cfg (fs st)"
  shows "MountSubvol sy dryRun cfg st =
     (if notNil (Dev cfg) \<and> the (Dev cfg) \<noteq> '''' then
        (let st2 = (if dryRun then print (''[dry-run] Would execute: '' @ fmtArgs (mountCmd cfg))
                                     (afterProbe sy cfg st)
                    else afterProbe sy cfg st);
             r = run sy (mountCmd cfg) st2
         in (map_option (\<lambda>e. ''failed to mount '' @ the (Dev cfg) @ '': '' @ e) (fst (fst r)), snd r))
      else (Some (''device not specified, unable to mount '' @ Mountpoint cfg), afterProbe sy cfg st))"
  using assms
  by (auto simp: MountSubvol_def reportsMounted_def afterProbe_def probeCmd_def mountCmd_def
        Let_def run_def notNil_iff split: prod.splits option.splits)

lemma MountSubvol_dry_run_runs_mount:
  assumes "\<not> reportsMounted sy cfg (fs st)" and "Dev cfg = Some d" and "d \<noteq> ''''"
  shows "executed (snd (MountSubvol sy True cfg st)) = executed st @ [probeCmd cfg, mountCmd cfg]"
  using assms(2,3) unfolding MountSubvol_unmounted [OF assms(1)]
  by (simp add: afterProbe_def run_def print_def Let_def split: prod.splits)

text \<open>
  C1. The claim: with simulation on, a non-empty device and an unmounted mountpoint, the
  guard announces the mount command, does not execute it and returns success with nothing
  mounted. The code prints the announcement and then runs the command all the same (the
  \<^verbatim>\<open>if dryRun\<close> has no \<^verbatim>\<open>else\<close>): in the toy world the mount command is among the commands
  run and the volume ends up mounted.
\<close>

theorem MountSubvol_dry_run_mounts:
  "MountSubvol (toySys []) True toyCfg (start toyFs) =
     (None,
      \<lparr>fs = toyFs\<lparr>mounted := True\<rparr>,
       stdout = [''[dry-run] Would execute: [mount -o subvolid=5 /dev/sda2 /btrfs]''],
       executed = [[''mount'', ''--grep'', ''/btrfs''],
              [''mount'', ''-o'', ''subvolid=5'', ''/dev/sda2'', ''/btrfs'']]\<rparr>)"
  by (simp add: MountSubvol_def run_def print_def toy_simps toyExec_def toyCfg_def toyFs_def
        start_def fmtArgs_def)

text \<open>
  C8. When the probe does not report the mountpoint as mounted and the device is absent or
  the empty string, \<open>MountSubvol\<close> fails with the message "device not specified, unable to
  mount <mountpoint>", and the probe is the only command it has run: no mount is attempted.
  This holds with and without simulation.
\<close>

theorem MountSubvol_device_not_specified:
  assumes "\<not> reportsMounted sy cfg (fs st)"
      and "Dev cfg = None \<or> Dev cfg = Some ''''"
  shows "MountSubvol sy dryRun cfg st =
           (Some (''device not specified, unable to mount '' @ Mountpoint cfg),
            st\<lparr>fs := snd (exec sy (probeCmd cfg) (fs st)), executed := executed st @ [probeCmd cfg]\<rparr>)"
  using assms(2) unfolding MountSubvol_unmounted [OF assms(1)]
  by (auto simp: afterProbe_def run_def split: prod.splits)

theorem MountSubvol_device_not_specified_witness:
  "\<not> reportsMounted (toySys []) (toyCfg\<lparr>Dev := None\<rparr>) (fs (start toyFs)) \<and>
   MountSubvol (toySys []) False (toyCfg\<lparr>Dev := None\<rparr>) (start toyFs) =
     (Some ''device not specified, unable to mount /btrfs'',
      \<lparr>fs = toyFs, stdout = [], executed = [[''mount'', ''--grep'', ''/btrfs'']]\<rparr>)"
proof -
  have h: "\<not> reportsMounted (toySys []) (toyCfg\<lparr>Dev := None\<rparr>) (fs (start toyFs))"
    by (simp add: reportsMounted_def probeCmd_def toy_simps toyExec_def toyCfg_def toyFs_def
          start_def)
  have d: "Dev (toyCfg\<lparr>Dev := None\<rparr>) = None \<or> Dev (toyCfg\<lparr>Dev := None\<rparr>) = Some ''''"
    by simp
  show ?thesis
    using h MountSubvol_device_not_specified [OF h d, of False]
    by (simp add: probeCmd_def toy_simps toyExec_def toyCfg_def toyFs_def start_def)
qed




section \<open>Properties of the Rollback Engine\<close>

lemma executed_print [simp]: "executed (print l st) = executed st"
  by (simp add: print_def)

lemma fs_print [simp]: "fs (print l st) = fs st"
  by (simp add: print_def)

lemma stdout_print [simp]: "stdout (print l st) = stdout st @ [l]"
  by (simp add: print_def)

lemma executed_run [simp]: "executed (snd (run sy c st)) = executed st @ [c]"
  by (simp add: run_def split: prod.splits)

lemma fs_run [simp]: "fs (snd (run sy c st)) = snd (exec sy c (fs st))"
  by (simp add: run_def split: prod.splits)

lemma stdout_run [simp]: "stdout (snd (run sy c st)) = stdout st"
  by (simp add: run_def split: prod.splits)

lemma fst_run [simp]: "fst (run sy c st) = fst (exec sy c (fs st))"
  by (simp add: run_def split: prod.splits)

text \<open>
  C4. With simulation on, for every world, configuration, snapshot id and state,
  \<open>Rollback\<close> returns success, runs no command and leaves the file system as it was (only
  standard output grows). It announces delete-old (only if \<^verbatim>\<open>os.Stat\<close> finds the stale
  backup in the real file system), move-current, create-snapshot and set-default, in this
  order: four announcements, or three without a stale backup. The completion message
  follows them.
\<close>

theorem Rollback_dry_run:
  "Rollback sy True cfg snapshotID st =
     (None,
      st\<lparr>stdout := stdout st @
         (if stat sy (fs st) (oldPath sy cfg)
          then [''[dry-run] Would delete old subvolume: '' @ oldPath sy cfg] else []) @
         [''[dry-run] Would move '' @ mainPath sy cfg @ '' to '' @ oldPath sy cfg,
          ''[dry-run] Would create snapshot from '' @ snapPath sy cfg snapshotID @ '' to ''
             @ mainPath sy cfg,
          ''[dry-run] Would set default subvolume to: '' @ mainPath sy cfg,
          ''Rollback completed using snapshot '' @ snapshotID]\<rparr>)
   \<and> length (filter announcement (stdout (snd (Rollback sy True cfg snapshotID st)))) =
       length (filter announcement (stdout st)) +
       (if stat sy (fs st) (oldPath sy cfg) then 4 else 3)"
  by (simp add: Rollback_def Let_def print_def oldPath_def mainPath_def snapPath_def
        announcement_def)

text \<open>
  Without simulation \<open>Rollback\<close> is the state machine of the specification run on the plan:
  it prints the removal notice if there is a stale backup, runs the steps, and returns the
  error of the step that failed or prints the completion message.
\<close>

lemma Rollback_blocks:
  "Rollback sy dryRun cfg snapshotID st =
     (let (e1, st1) =
            (if stat sy (fs st) (oldPath sy cfg) then
               stepBlock sy dryRun (''[dry-run] Would delete old subvolume: '' @ oldPath sy cfg)
                 (stepCmd sy cfg snapshotID DeleteOld) (stepError sy cfg snapshotID DeleteOld)
                 (if dryRun then st else print (''Removing old subvolume: '' @ oldPath sy cfg) st)
             else (None, st))
      in if notNil e1 then (e1, st1) else
     (let (e2, st2) =
            stepBlock sy dryRun
              (''[dry-run] Would move '' @ mainPath sy cfg @ '' to '' @ oldPath sy cfg)
              (stepCmd sy cfg snapshotID MoveCurrent) (stepError sy cfg snapshotID MoveCurrent) st1
      in if notNil e2 then (e2, st2) else
     (let (e3, st3) =
            stepBlock sy dryRun
              (''[dry-run] Would create snapshot from '' @ snapPath sy cfg snapshotID @ '' to ''
                 @ mainPath sy cfg)
              (stepCmd sy cfg snapshotID CreateSnapshot)
              (stepError sy cfg snapshotID CreateSnapshot) st2
      in if notNil e3 then (e3, st3) else
     (let (e4, st4) =
            stepBlock sy dryRun (''[dry-run] Would set default subvolume to: '' @ mainPath sy cfg)
              (stepCmd sy cfg snapshotID SetDefault) (stepError sy cfg snapshotID SetDefault) st3
      in if notNil e4 then (e4, st4)
         else (None, print (''Rollback completed using snapshot '' @ snapshotID) st4)))))"
  unfolding Rollback_def stepBlock_def Let_def oldPath_def mainPath_def snapPath_def
    stepCmd.simps stepError.simps
  by (cases dryRun) (simp_all only: if_True if_False)

lemma stepBlock_real:
  "stepBlock sy False l c ef st = (map_option ef (fst (fst (run sy c st))), snd (run sy c st))"
  by (auto simp: stepBlock_def simp del: fst_run split: prod.splits option.splits)

lemma runSteps_Cons:
  "runSteps sy cmd (s # ss) st =
     (case fst (fst (run sy (cmd s) st)) of
        None \<Rightarrow> runSteps sy cmd ss (snd (run sy (cmd s) st))
      | Some e \<Rightarrow> (Some (s, e), snd (run sy (cmd s) st)))"
  by (auto simp del: fst_run split: prod.splits option.splits)

lemma Rollback_real:
  "Rollback sy False cfg snapshotID st =
    (let st0 = (if stat sy (fs st) (oldPath sy cfg)
                then print (''Removing old subvolume: '' @ oldPath sy cfg) st else st);
         (r, st') = runSteps sy (stepCmd sy cfg snapshotID) (plan sy cfg (fs st)) st0
     in (case r of Some (s, e) \<Rightarrow> (Some (stepError sy cfg snapshotID s e), st')
         | None \<Rightarrow> (None, print (''Rollback completed using snapshot '' @ snapshotID) st')))"
  unfolding Rollback_blocks plan_def stepBlock_real
  by (simp add: Let_def runSteps_Cons notNil_iff split: option.splits
        del: runSteps.simps(2) stepCmd.simps stepError.simps)

lemma stepOfError_stepError [simp]: "stepOfError (stepError sy cfg snapshotID s e) = Some s"
  by (cases s) (simp_all add: stepOfError_def)

text \<open>
  The state machine runs a prefix of its steps, in order; it stops before the end exactly
  when the last step it ran failed.
\<close>

lemma runSteps_prefix:
  "\<exists>k\<le>length ss.
     executed (snd (runSteps sy cmd ss st)) = executed st @ map cmd (take k ss) \<and>
     (case fst (runSteps sy cmd ss st) of
        None \<Rightarrow> k = length ss
      | Some (s, e) \<Rightarrow> 0 < k \<and> s = ss ! (k - 1))"
proof (induction ss arbitrary: st)
  case Nil
  show ?case by simp
next
  case (Cons s ss)
  obtain e out st' where r: "run sy (cmd s) st = ((e, out), st')"
    by (metis prod.exhaust)
  then have ran': "executed st' = executed st @ [cmd s]"
    using executed_run [of sy "cmd s" st] by simp
  show ?case
  proof (cases e)
    case (Some m)
    with r ran' show ?thesis
      by (intro exI [of _ 1]) simp
  next
    case None
    from Cons.IH [of st'] obtain k where k: "k \<le> length ss"
      "executed (snd (runSteps sy cmd ss st')) = executed st' @ map cmd (take k ss)"
      "(case fst (runSteps sy cmd ss st') of None \<Rightarrow> k = length ss
        | Some (s, e) \<Rightarrow> 0 < k \<and> s = ss ! (k - 1))"
      by blast
    with r ran' None show ?thesis
      by (intro exI [of _ "Suc k"]) (auto split: option.splits)
  qed
qed

lemma Rollback_prefix:
  "\<exists>k\<le>length (plan sy cfg (fs st)).
      executed (snd (Rollback sy False cfg snapshotID st)) =
        executed st @ map (stepCmd sy cfg snapshotID) (take k (plan sy cfg (fs st))) \<and>
      (case fst (Rollback sy False cfg snapshotID st) of
         None \<Rightarrow> k = length (plan sy cfg (fs st))
       | Some msg \<Rightarrow> 0 < k \<and> stepOfError msg = Some (plan sy cfg (fs st) ! (k - 1)))"
proof -
  let ?st0 = "if stat sy (fs st) (oldPath sy cfg)
              then print (''Removing old subvolume: '' @ oldPath sy cfg) st else st"
  let ?p = "plan sy cfg (fs st)"
  let ?c = "stepCmd sy cfg snapshotID"
  obtain k where k: "k \<le> length ?p"
      "executed (snd (runSteps sy ?c ?p ?st0)) = executed ?st0 @ map ?c (take k ?p)"
      "(case fst (runSteps sy ?c ?p ?st0) of None \<Rightarrow> k = length ?p
        | Some (s, e) \<Rightarrow> 0 < k \<and> s = ?p ! (k - 1))"
    using runSteps_prefix [of ?p sy ?c ?st0] by blast
  have "executed ?st0 = executed st" by simp
  with k show ?thesis
    by (intro exI [of _ k]) (auto simp: Rollback_real Let_def split: prod.splits option.splits)
qed

lemma runSteps_move_fails:
  assumes "stat sy (fs st) (oldPath sy cfg) \<longrightarrow>
             fst (fst (exec sy (stepCmd sy cfg snapshotID DeleteOld) (fs st))) = None"
      and "fst (fst (exec sy (stepCmd sy cfg snapshotID MoveCurrent)
                      (afterStep1 sy cfg snapshotID (fs st)))) = Some e"
      and "fs st0 = fs st"
  shows "runSteps sy (stepCmd sy cfg snapshotID) (plan sy cfg (fs st)) st0 =
           (Some (MoveCurrent, e),
            snd (run sy (stepCmd sy cfg snapshotID MoveCurrent)
                  (if stat sy (fs st) (oldPath sy cfg)
                   then snd (run sy (stepCmd sy cfg snapshotID DeleteOld) st0) else st0)))"
proof (cases "stat sy (fs st) (oldPath sy cfg)")
  case True
  with assms show ?thesis
    by (simp add: plan_def runSteps_Cons afterStep1_def
          del: runSteps.simps(2) stepCmd.simps)
next
  case False
  with assms show ?thesis
    by (simp add: plan_def runSteps_Cons afterStep1_def
          del: runSteps.simps(2) stepCmd.simps)
qed

lemma Rollback_move_fails:
  assumes "stat sy (fs st) (oldPath sy cfg) \<longrightarrow>
             fst (fst (exec sy (stepCmd sy cfg snapshotID DeleteOld) (fs st))) = None"
      and "fst (fst (exec sy (stepCmd sy cfg snapshotID MoveCurrent)
                      (afterStep1 sy cfg snapshotID (fs st)))) = Some e"
  shows "fst (Rollback sy False cfg snapshotID st) =
           Some (''failed to move '' @ mainPath sy cfg @ '' to '' @ oldPath sy cfg @ '': '' @ e)"
    and "executed (snd (Rollback sy False cfg snapshotID st)) =
           executed st @
           (if stat sy (fs st) (oldPath sy cfg) then [stepCmd sy cfg snapshotID DeleteOld] else []) @
           [stepCmd sy cfg snapshotID MoveCurrent]"
    and "fs (snd (Rollback sy False cfg snapshotID st)) =
           snd (exec sy (stepCmd sy cfg snapshotID MoveCurrent) (afterStep1 sy cfg snapshotID (fs st)))"
proof -
  let ?st0 = "if stat sy (fs st) (oldPath sy cfg)
              then print (''Removing old subvolume: '' @ oldPath sy cfg) st else st"
  have "fs ?st0 = fs st" by simp
  note rs = runSteps_move_fails [OF assms this]
  show "fst (Rollback sy False cfg snapshotID st) =
           Some (''failed to move '' @ mainPath sy cfg @ '' to '' @ oldPath sy cfg @ '': '' @ e)"
    unfolding Rollback_real Let_def rs by simp
  show "executed (snd (Rollback sy False cfg snapshotID st)) =
           executed st @
           (if stat sy (fs st) (oldPath sy cfg) then [stepCmd sy cfg snapshotID DeleteOld] else []) @
           [stepCmd sy cfg snapshotID MoveCurrent]"
    unfolding Rollback_real Let_def rs by (simp del: stepCmd.simps)
  show "fs (snd (Rollback sy False cfg snapshotID st)) =
           snd (exec sy (stepCmd sy cfg snapshotID MoveCurrent) (afterStep1 sy cfg snapshotID (fs st)))"
    unfolding Rollback_real Let_def rs by (simp add: afterStep1_def del: stepCmd.simps)
qed

text \<open>
  C5. Without simulation, for every world, configuration, snapshot id and state:
  \<^item> \<open>Rollback\<close> is the strictly ordered state machine run on the plan (delete-old if the
    stale backup exists, move-current, create-snapshot, set-default);
  \<^item> the commands it runs are a prefix of the plan's commands, in order; it returns no error
    exactly when it ran them all, and otherwise the error it returns names the last step
    it ran;
  \<^item> if step 1 succeeds or is skipped and the move of step 2 fails, the error is "failed to
    move ...", the commands run are those of step 1 and the move, so that steps 3 and 4
    are never attempted, and the file system is the one the failed move left behind from
    the result of step 1.
\<close>

theorem Rollback_aborts_at_first_failure:
  "Rollback sy False cfg snapshotID st =
    (let st0 = (if stat sy (fs st) (oldPath sy cfg)
                then print (''Removing old subvolume: '' @ oldPath sy cfg) st else st);
         (r, st') = runSteps sy (stepCmd sy cfg snapshotID) (plan sy cfg (fs st)) st0
     in (case r of Some (s, e) \<Rightarrow> (Some (stepError sy cfg snapshotID s e), st')
         | None \<Rightarrow> (None, print (''Rollback completed using snapshot '' @ snapshotID) st')))
   \<and> (\<exists>k\<le>length (plan sy cfg (fs st)).
        executed (snd (Rollback sy False cfg snapshotID st)) =
          executed st @ map (stepCmd sy cfg snapshotID) (take k (plan sy cfg (fs st))) \<and>
        (case fst (Rollback sy False cfg snapshotID st) of
           None \<Rightarrow> k = length (plan sy cfg (fs st))
         | Some msg \<Rightarrow> 0 < k \<and> stepOfError msg = Some (plan sy cfg (fs st) ! (k - 1))))
   \<and> (\<forall>e. (stat sy (fs st) (oldPath sy cfg) \<longrightarrow>
              fst (fst (exec sy (stepCmd sy cfg snapshotID DeleteOld) (fs st))) = None) \<and>
           fst (fst (exec sy (stepCmd sy cfg snapshotID MoveCurrent)
                       (afterStep1 sy cfg snapshotID (fs st)))) = Some e \<longrightarrow>
           fst (Rollback sy False cfg snapshotID st) =
             Some (''failed to move '' @ mainPath sy cfg @ '' to '' @ oldPath sy cfg @ '': '' @ e) \<and>
           executed (snd (Rollback sy False cfg snapshotID st)) =
             executed st @
             (if stat sy (fs st) (oldPath sy cfg) then [stepCmd sy cfg snapshotID DeleteOld]
              else []) @
             [stepCmd sy cfg snapshotID MoveCurrent] \<and>
           fs (snd (Rollback sy False cfg snapshotID st)) =
             snd (exec sy (stepCmd sy cfg snapshotID MoveCurrent)
                    (afterStep1 sy cfg snapshotID (fs st))))"
proof (intro conjI allI impI)
  show "Rollback sy False cfg snapshotID st =
    (let st0 = (if stat sy (fs st) (oldPath sy cfg)
                then print (''Removing old subvolume: '' @ oldPath sy cfg) st else st);
         (r, st') = runSteps sy (stepCmd sy cfg snapshotID) (plan sy cfg (fs st)) st0
     in (case r of Some (s, e) \<Rightarrow> (Some (stepError sy cfg snapshotID s e), st')
         | None \<Rightarrow> (None, print (''Rollback completed using snapshot '' @ snapshotID) st')))"
    by (rule Rollback_real)
next
  show "\<exists>k\<le>length (plan sy cfg (fs st)).
        executed (snd (Rollback sy False cfg snapshotID st)) =
          executed st @ map (stepCmd sy cfg snapshotID) (take k (plan sy cfg (fs st))) \<and>
        (case fst (Rollback sy False cfg snapshotID st) of
           None \<Rightarrow> k = length (plan sy cfg (fs st))
         | Some msg \<Rightarrow> 0 < k \<and> stepOfError msg = Some (plan sy cfg (fs st) ! (k - 1)))"
    by (rule Rollback_prefix)
next
  fix e
  assume h: "(stat sy (fs st) (oldPath sy cfg) \<longrightarrow>
              fst (fst (exec sy (stepCmd sy cfg snapshotID DeleteOld) (fs st))) = None) \<and>
           fst (fst (exec sy (stepCmd sy cfg snapshotID MoveCurrent)
                       (afterStep1 sy cfg snapshotID (fs st)))) = Some e"
  note r = Rollback_move_fails [OF conjunct1 [OF h] conjunct2 [OF h]]
  show "fst (Rollback sy False cfg snapshotID st) =
             Some (''failed to move '' @ mainPath sy cfg @ '' to '' @ oldPath sy cfg @ '': '' @ e)"
    by (rule r(1))
  show "executed (snd (Rollback sy False cfg snapshotID st)) =
             executed st @
             (if stat sy (fs st) (oldPath sy cfg) then [stepCmd sy cfg snapshotID DeleteOld]
              else []) @
             [stepCmd sy cfg snapshotID MoveCurrent]"
    by (rule r(2))
  show "fs (snd (Rollback sy False cfg snapshotID st)) =
             snd (exec sy (stepCmd sy cfg snapshotID MoveCurrent)
                    (afterStep1 sy cfg snapshotID (fs st)))"
    by (rule r(3))
qed

text \<open>
  In the toy world with a failing \<^verbatim>\<open>mv\<close>: the stale backup is deleted, the move fails and
  nothing else runs; the main subvolume is still in place and the backup is gone.
\<close>

theorem Rollback_aborts_at_first_failure_witness:
  "stat (toySys [[''mv'', ''/btrfs/@'', ''/btrfs/@.old'']]) (fs (start toyFs))
     (oldPath (toySys [[''mv'', ''/btrfs/@'', ''/btrfs/@.old'']]) toyCfg) \<and>
   fst (Rollback (toySys [[''mv'', ''/btrfs/@'', ''/btrfs/@.old'']]) False toyCfg ''7'' (start toyFs))
     = Some ''failed to move /btrfs/@ to /btrfs/@.old: exit status 1'' \<and>
   executed (snd (Rollback (toySys [[''mv'', ''/btrfs/@'', ''/btrfs/@.old'']]) False toyCfg ''7''
                    (start toyFs)))
     = [[''btrfs'', ''subvolume'', ''delete'', ''/btrfs/@.old''],
        [''mv'', ''/btrfs/@'', ''/btrfs/@.old'']] \<and>
   fs (snd (Rollback (toySys [[''mv'', ''/btrfs/@'', ''/btrfs/@.old'']]) False toyCfg ''7''
              (start toyFs)))
     = toyFs\<lparr>subvols := [''/btrfs/@'', ''/btrfs/@snapshots/7/snapshot'',
                          ''/btrfs/@snapshots/2/snapshot'']\<rparr>"
proof -
  let ?sy = "toySys [[''mv'', ''/btrfs/@'', ''/btrfs/@.old'']]"
  have paths: "mainPath ?sy toyCfg = ''/btrfs/@''" "oldPath ?sy toyCfg = ''/btrfs/@.old''"
    by (simp_all add: mainPath_def oldPath_def toy_simps toyCfg_def)
  have hold: "stat ?sy (fs (start toyFs)) (oldPath ?sy toyCfg)"
    by (simp add: paths toy_simps toyFs_def start_def)
  have hdel: "fst (fst (exec ?sy (stepCmd ?sy toyCfg ''7'' DeleteOld) (fs (start toyFs)))) = None"
    by (simp add: paths toy_simps toyExec_def)
  have hafter: "afterStep1 ?sy toyCfg ''7'' (fs (start toyFs)) =
                 toyFs\<lparr>subvols := [''/btrfs/@'', ''/btrfs/@snapshots/7/snapshot'',
                                      ''/btrfs/@snapshots/2/snapshot'']\<rparr>"
    by (simp add: afterStep1_def paths toy_simps toyExec_def toyFs_def start_def)
  have hmv: "fst (fst (exec ?sy (stepCmd ?sy toyCfg ''7'' MoveCurrent)
                        (afterStep1 ?sy toyCfg ''7'' (fs (start toyFs))))) = Some ''exit status 1''"
    by (simp add: paths toy_simps toyExec_def)
  have ex: "exec ?sy (stepCmd ?sy toyCfg ''7'' MoveCurrent) f = ((Some ''exit status 1'', ''''), f)" for f
    by (simp add: paths toy_simps toyExec_def)
  have pre: "(stat ?sy (fs (start toyFs)) (oldPath ?sy toyCfg) \<longrightarrow>
                fst (fst (exec ?sy (stepCmd ?sy toyCfg ''7'' DeleteOld) (fs (start toyFs)))) = None) \<and>
             fst (fst (exec ?sy (stepCmd ?sy toyCfg ''7'' MoveCurrent)
                        (afterStep1 ?sy toyCfg ''7'' (fs (start toyFs))))) = Some ''exit status 1''"
    using hdel hmv by (intro conjI impI)
  note inst = Rollback_aborts_at_first_failure [of ?sy toyCfg "''7''" "start toyFs"]
  note B = inst [THEN conjunct2, THEN conjunct2, THEN spec, of "''exit status 1''", THEN mp, OF pre]
  have B': "fst (Rollback ?sy False toyCfg ''7'' (start toyFs)) =
             Some (''failed to move '' @ mainPath ?sy toyCfg @ '' to '' @ oldPath ?sy toyCfg @ '': ''
                   @ ''exit status 1'') \<and>
           executed (snd (Rollback ?sy False toyCfg ''7'' (start toyFs))) =
             executed (start toyFs) @ [stepCmd ?sy toyCfg ''7'' DeleteOld] @
             [stepCmd ?sy toyCfg ''7'' MoveCurrent] \<and>
           fs (snd (Rollback ?sy False toyCfg ''7'' (start toyFs))) =
             toyFs\<lparr>subvols := [''/btrfs/@'', ''/btrfs/@snapshots/7/snapshot'',
                                  ''/btrfs/@snapshots/2/snapshot'']\<rparr>"
    using B hold unfolding ex hafter by simp
  show ?thesis
    using hold B' by (simp add: paths start_def)
qed

section \<open>Properties of the Snapshot Catalog\<close>

text \<open>
  The loop of \<open>listSubvolumes\<close> keeps the qualifying entries, in order, and probes the
  directories only.
\<close>

lemma listLoop_filter:
  assumes "probeReadOnly sy"
  shows "listLoop sy (snapshotDir sy cfg) entries subvolumes st =
           (subvolumes @ map (\<lambda>e. candidatePath sy cfg (fst e)) (filter (qualifies sy cfg (fs st)) entries),
            st\<lparr>executed := executed st @
                  map (\<lambda>e. showCmd (candidatePath sy cfg (fst e))) (filter snd entries)\<rparr>)"
proof (induction entries arbitrary: subvolumes st)
  case Nil
  show ?case by simp
next
  case (Cons entry entries)
  obtain name isDir where entry: "entry = (name, isDir)" by (cases entry)
  have ro: "snd (exec sy (showCmd path) f) = f" for path f
    using assms by (simp add: probeReadOnly_def)
  show ?case
  proof (cases isDir)
    case False
    then show ?thesis
      using Cons.IH by (simp add: entry qualifies_def)
  next
    case True
    let ?p = "candidatePath sy cfg name"
    have r: "realIsBtrfsSubvolume sy ?p st =
               (isSubvolume sy (fs st) ?p, st\<lparr>executed := executed st @ [showCmd ?p]\<rparr>)"
      using ro [of ?p "fs st"]
      by (auto simp: realIsBtrfsSubvolume_def isSubvolume_def run_def showCmd_def
            split: prod.splits)
    have step: "listLoop sy (snapshotDir sy cfg) ((name, True) # entries) subvolumes st =
                  (let (ok, st') = realIsBtrfsSubvolume sy ?p st in
                   if ok then listLoop sy (snapshotDir sy cfg) entries (subvolumes @ [?p]) st'
                   else listLoop sy (snapshotDir sy cfg) entries subvolumes st')"
      unfolding candidatePath_def by (simp add: Let_def)
    show ?thesis
      using True by (simp add: entry step r Cons.IH qualifies_def del: listLoop.simps)
  qed
qed


text \<open>
  C7. For every list of entries that \<^verbatim>\<open>os.ReadDir\<close> returns for the snapshot directory, and a
  probe that leaves the file system as it is, \<open>listSubvolumes\<close> succeeds and returns
  exactly the \<^verbatim>\<open>snapshot\<close> paths of the entries that are directories and that the probe
  \<^verbatim>\<open>btrfs subvolume show\<close> reports as subvolumes, in directory order. The other entries are
  skipped without an error and without output, whatever their names; the probe is run for
  the directories only.
\<close>

theorem listSubvolumes_candidates:
  assumes "probeReadOnly sy"
      and "readDir sy (fs st) (snapshotDir sy cfg) = Inr entries"
  shows "listSubvolumes sy cfg st =
           (Inr (map (\<lambda>e. candidatePath sy cfg (fst e))
                   (filter (qualifies sy cfg (fs st)) entries)),
            st\<lparr>executed := executed st @
                  map (\<lambda>e. showCmd (candidatePath sy cfg (fst e))) (filter snd entries)\<rparr>)"
  using assms(2) listLoop_filter [OF assms(1), of cfg entries "[]" st]
  by (simp add: listSubvolumes_def snapshotDir_def [symmetric])

theorem listSubvolumes_candidates_witness:
  "probeReadOnly (toySys []) \<and>
   readDir (toySys []) (fs (start toyFs)) (snapshotDir (toySys []) toyCfg) =
     Inr [(''7'', True), (''notes.txt'', False), (''2'', True), (''lost'', True)] \<and>
   fst (listSubvolumes (toySys []) toyCfg (start toyFs)) =
     Inr [''/btrfs/@snapshots/7/snapshot'', ''/btrfs/@snapshots/2/snapshot'']"
proof -
  have ro: "probeReadOnly (toySys [])"
    by (simp add: probeReadOnly_def showCmd_def toy_simps toyExec_def)
  have dir: "snapshotDir (toySys []) toyCfg = ''/btrfs/@snapshots''"
    by (simp add: snapshotDir_def toy_simps toyCfg_def)
  have rd: "readDir (toySys []) (fs (start toyFs)) (snapshotDir (toySys []) toyCfg) =
              Inr [(''7'', True), (''notes.txt'', False), (''2'', True), (''lost'', True)]"
    unfolding dir by (simp add: toySys_def toyFs_def start_def)
  have q: "filter (qualifies (toySys []) toyCfg (fs (start toyFs)))
             [(''7'', True), (''notes.txt'', False), (''2'', True), (''lost'', True)] =
           [(''7'', True), (''2'', True)]"
    by (simp add: qualifies_def isSubvolume_def candidatePath_def dir showCmd_def toy_simps
          toyExec_def toyFs_def start_def)
  have "fst (listSubvolumes (toySys []) toyCfg (start toyFs)) =
          Inr [''/btrfs/@snapshots/7/snapshot'', ''/btrfs/@snapshots/2/snapshot'']"
    unfolding listSubvolumes_candidates [OF ro rd] q
    by (simp add: candidatePath_def dir toy_simps)
  with ro rd show ?thesis by simp
qed

text \<open>Why \<open>ReadSnapshotInfo\<close> fails: the file could not be read, or not be decoded.\<close>

lemma ReadSnapshotInfo_error:
  assumes "ReadSnapshotInfo sy f cfg p = Inl e"
  shows "(\<exists>x. readFile sy f (pathJoin sy [pathDir sy p, ''info.xml'']) = Inl x \<and>
              e = ''could not read XML file: '' @ x) \<or>
         (\<exists>d x. readFile sy f (pathJoin sy [pathDir sy p, ''info.xml'']) = Inr d \<and>
                xmlUnmarshal sy d = Inl x \<and> e = ''could not unmarshal XML: '' @ x)"
  using assms by (auto simp: ReadSnapshotInfo_def Let_def split: sum.splits)




end
